theory Spec2Isabelle
  imports Main
begin

section \<open>The kiwi runtime client: \<^verbatim>\<open>run(kiwi, args)\<close> of src/runtime/client.py\<close>

text \<open>
  \<^verbatim>\<open>run\<close> is the command front end of the package manager. It receives the
  \<^verbatim>\<open>kiwi\<close> namespace (the engine, the registry client, the installed-module store and
  the prompt) and the parsed arguments, and it talks to the user through
  \<^verbatim>\<open>kiwi.say\<close> and \<^verbatim>\<open>print\<close>.

  The namespace is not defined in this file of the repository, so the model takes it as
  a parameter: a record of operations over an abstract world \<open>'w\<close> (the file system,
  the network, the terminal). Every operation returns its result and the world after
  the call. Everything \<^verbatim>\<open>run\<close> does to the outside is recorded, in order, as a list
  of events.
\<close>

type_synonym modulename = string

subsection \<open>Observable events\<close>

datatype event =
    Say string
      \<comment> \<open>\<^verbatim>\<open>kiwi.say(msg)\<close>\<close>
  | Print string
      \<comment> \<open>\<^verbatim>\<open>print(line)\<close>\<close>
  | Print_row char modulename string
      \<comment> \<open>\<^verbatim>\<open>print('[{}] {}: {}'.format(mark, module, description))\<close>\<close>
  | Call_installed
      \<comment> \<open>\<^verbatim>\<open>kiwi.get_installed_module_list()\<close>\<close>
  | Call_remote
      \<comment> \<open>\<^verbatim>\<open>kiwi.get_remote_module_list()\<close>\<close>
  | Call_description modulename
      \<comment> \<open>\<^verbatim>\<open>kiwi.get_module_description(module)\<close>\<close>
  | Call_fetch "modulename list" bool
      \<comment> \<open>\<^verbatim>\<open>kiwi.fetch_modules(modules, update)\<close>\<close>
  | Call_ask string "string list"
      \<comment> \<open>\<^verbatim>\<open>kiwi.Helper.ask(prompt, choices)\<close>\<close>
  | Call_update string
      \<comment> \<open>\<^verbatim>\<open>kiwi.runtime.update(msg)\<close>\<close>

text \<open>The text a listing row puts on the terminal.\<close>

definition row_text :: "char \<Rightarrow> modulename \<Rightarrow> string \<Rightarrow> string" where
  "row_text mk m d = ''['' @ [mk] @ ''] '' @ m @ '': '' @ d"

text \<open>The rows of a listing, as (mark, module) pairs in the order printed.\<close>

fun rows :: "event list \<Rightarrow> (char \<times> modulename) list" where
  "rows [] = []"
| "rows (Print_row mk m d # es) = (mk, m) # rows es"
| "rows (e # es) = rows es"

text \<open>Calls that leave the process: the registry listing and the engine.\<close>

fun is_remote_or_engine_call :: "event \<Rightarrow> bool" where
  "is_remote_or_engine_call Call_remote = True"
| "is_remote_or_engine_call (Call_fetch ms u) = True"
| "is_remote_or_engine_call e = False"

fun is_fetch_call :: "event \<Rightarrow> bool" where
  "is_fetch_call (Call_fetch ms u) = True"
| "is_fetch_call e = False"

subsection \<open>The namespace and the arguments\<close>

text \<open>
  \<open>get_remote_module_list\<close> returns \<open>None\<close> where the Python raises
  \<^verbatim>\<open>requests.exceptions.RequestException\<close>, the only exception \<^verbatim>\<open>run\<close> catches.
  \<open>fetch_modules\<close> returns the triple \<^verbatim>\<open>(fetched, update, failed)\<close>.
\<close>

record 'w kiwi =
  get_installed_module_list :: "'w \<Rightarrow> modulename list \<times> 'w"
  get_remote_module_list :: "'w \<Rightarrow> modulename list option \<times> 'w"
  get_module_description :: "modulename \<Rightarrow> 'w \<Rightarrow> string \<times> 'w"
  fetch_modules :: "modulename list \<Rightarrow> bool \<Rightarrow> 'w
                     \<Rightarrow> (modulename list \<times> modulename list \<times> modulename list) \<times> 'w"
  ask :: "string \<Rightarrow> string list \<Rightarrow> 'w \<Rightarrow> string \<times> 'w"
  runtime_update :: "string \<Rightarrow> 'w \<Rightarrow> bool \<times> 'w"

text \<open>
  The parsed command line. \<open>get_modules\<close> and \<open>update_modules\<close> are \<^verbatim>\<open>None\<close> when
  the option was not given.
\<close>

record args =
  list_modules :: bool
  get_modules :: "modulename list option"
  update_modules :: "modulename list option"
  self_update :: bool

text \<open>Python's truth value of an optional list: \<^verbatim>\<open>None\<close> and \<^verbatim>\<open>[]\<close> are false.\<close>

fun truthy :: "'a list option \<Rightarrow> bool" where
  "truthy None = False"
| "truthy (Some xs) = (xs \<noteq> [])"

datatype exn = IndexError

text \<open>
  How a call of \<^verbatim>\<open>run\<close> ends: it returns, it leaves through \<^verbatim>\<open>sys.exit(n)\<close>, or an
  exception it does not catch escapes.
\<close>

datatype outcome = Returned | Exit int | Raised exn

text \<open>The status of the process: an escaped exception ends the interpreter with 1.\<close>

fun exit_status :: "outcome \<Rightarrow> int" where
  "exit_status Returned = 0"
| "exit_status (Exit n) = n"
| "exit_status (Raised e) = 1"

subsection \<open>Formatting\<close>

definition digit_char :: "nat \<Rightarrow> char" where
  "digit_char n = char_of (48 + n)"

fun show_nat :: "nat \<Rightarrow> string" where
  "show_nat n = (if n < 10 then [digit_char n] else show_nat (n div 10) @ [digit_char (n mod 10)])"

declare show_nat.simps [simp del]

definition show_int :: "int \<Rightarrow> string" where
  "show_int i = (if i < 0 then CHR ''-'' # show_nat (nat (- i)) else show_nat (nat i))"

definition tab :: char where
  "tab = char_of (9 :: nat)"

text \<open>\<^verbatim>\<open>' '.join(words)\<close>\<close>

fun join_spaces :: "string list \<Rightarrow> string" where
  "join_spaces [] = []"
| "join_spaces [w] = w"
| "join_spaces (w # ws) = w @ '' '' @ join_spaces ws"

text \<open>\<^verbatim>\<open>sys.argv[1]\<close>, which raises \<^verbatim>\<open>IndexError\<close> on a shorter list.\<close>

definition argv1 :: "string list \<Rightarrow> string option" where
  "argv1 argv = (if 1 < length argv then Some (argv ! 1) else None)"

subsection \<open>Listing (lines 10 to 28)\<close>

text \<open>
  The first loop: every module of \<open>modules\<close> is printed with \<^verbatim>\<open>x\<close> when it is in
  \<open>installed\<close> and with a blank otherwise, and is then removed from \<open>installed\<close>
  (\<^verbatim>\<open>list.remove\<close> drops the first occurrence). The loop returns what is left of
  \<open>installed\<close>.
\<close>

fun mark_modules :: "'w kiwi \<Rightarrow> modulename list \<Rightarrow> modulename list \<Rightarrow> 'w
                       \<Rightarrow> modulename list \<times> 'w \<times> event list" where
  "mark_modules k [] installed w = (installed, w, [])"
| "mark_modules k (m # ms) installed w =
     (let mk = (if m \<in> set installed then CHR ''x'' else CHR '' '');
          (d, w1) = get_module_description k m w;
          installed1 = (if m \<in> set installed then remove1 m installed else installed);
          (installed2, w2, es) = mark_modules k ms installed1 w1
      in (installed2, w2, Call_description m # Print_row mk m d # es))"

text \<open>The second loop: what is left of \<open>installed\<close> is printed with \<^verbatim>\<open>?\<close>.\<close>

fun list_unknown :: "'w kiwi \<Rightarrow> modulename list \<Rightarrow> 'w \<Rightarrow> 'w \<times> event list" where
  "list_unknown k [] w = (w, [])"
| "list_unknown k (m # ms) w =
     (let (d, w1) = get_module_description k m w;
          (w2, es) = list_unknown k ms w1
      in (w2, Call_description m # Print_row CHR ''?'' m d # es))"

definition unreachable_notice :: string where
  "unreachable_notice = ''could not reach remote to fetch module list, listing local modules only''"

definition run_list :: "'w kiwi \<Rightarrow> 'w \<Rightarrow> outcome \<times> 'w \<times> event list" where
  "run_list k w =
     (let (installed, w1) = get_installed_module_list k w;
          (remote, w2) = get_remote_module_list k w1;
          (modules, notice) =
             (case remote of
                Some ms \<Rightarrow> (ms, [])
              | None \<Rightarrow> (installed, [Say unreachable_notice]));
          (installed1, w3, es1) = mark_modules k modules installed w2;
          (w4, es2) = list_unknown k installed1 w3
      in (Returned, w4, Call_installed # Call_remote # notice @ es1 @ es2))"

subsection \<open>Fetching and updating (lines 31 to 77)\<close>

text \<open>
  Lines 35 to 52: the sentinel \<^verbatim>\<open>all\<close>. With other names beside it the request is
  refused; alone it stands for the remote list when fetching and for the installed list
  when updating. The result is the module list to hand to the engine, or the way the
  process ends.
\<close>

definition usage_notice :: string where
  "usage_notice = ''can't have 'all' argument with other modules listed''"

definition collect_modules :: "'w kiwi \<Rightarrow> args \<Rightarrow> string list \<Rightarrow> modulename list \<Rightarrow> 'w
                                \<Rightarrow> (outcome + modulename list) \<times> 'w \<times> event list" where
  "collect_modules k a argv modules w =
     (if ''all'' \<in> set modules then
        (if length modules > 1 then
           (case argv1 argv of
              None \<Rightarrow>
                (Inl (Raised IndexError), w, [Say usage_notice, Print ''Possible solutions:''])
            | Some cmd \<Rightarrow>
                (Inl (Exit 1), w,
                 [Say usage_notice,
                  Print ''Possible solutions:'',
                  Print (tab # ''* kiwi '' @ cmd @ '' all''),
                  Print (tab # ''* kiwi '' @ cmd @ '' ''
                           @ join_spaces (filter (\<lambda>m. m \<noteq> ''all'') modules))]))
         else if truthy (get_modules a) then
           (case get_remote_module_list k w of
              (None, w1) \<Rightarrow>
                (Inl (Exit 1), w1, [Call_remote, Say ''could not reach remote to fetch module list''])
            | (Some ms, w1) \<Rightarrow> (Inr ms, w1, [Call_remote]))
         else
           (case get_installed_module_list k w of
              (ms, w1) \<Rightarrow> (Inr ms, w1, [Call_installed])))
      else (Inr modules, w, []))"

text \<open>
  Line 64: the number reported as present and up to date, a Python integer (it is
  not clipped at zero).
\<close>

definition unchanged_count :: "modulename list \<Rightarrow> modulename list \<Rightarrow> modulename list
                                \<Rightarrow> modulename list \<Rightarrow> int" where
  "unchanged_count modules fetched updatable failed =
     int (length modules) - int (length fetched) - int (length updatable) - int (length failed)"

text \<open>Lines 58 to 64: the report of a fetch.\<close>

definition fetch_report :: "modulename list \<Rightarrow> modulename list \<Rightarrow> modulename list
                             \<Rightarrow> modulename list \<Rightarrow> event list" where
  "fetch_report modules fetched updatable failed =
     [Say ''fetch results'',
      Print (tab # ''* '' @ show_nat (length fetched) @ '' new modules fetched''),
      Print (tab # ''* '' @ show_nat (length failed) @ '' modules could not be fetched''),
      Print (tab # ''* '' @ show_nat (length updatable) @ '' modules have an available update'')]
     @ (if length modules \<noteq> length fetched + length updatable + length failed
        then [Print (tab # ''* '' @ show_int (unchanged_count modules fetched updatable failed)
                       @ '' modules are present and up to date'')]
        else [])"

text \<open>Lines 74 to 77: the report of an update.\<close>

definition update_report :: "modulename list \<Rightarrow> modulename list \<Rightarrow> event list" where
  "update_report fetched failed =
     [Say ''update results'',
      Print (tab # ''* '' @ show_nat (length fetched) @ '' modules were updated''),
      Print (tab # ''* '' @ show_nat (length failed) @ '' modules could not be updated'')]"

definition update_question :: string where
  "update_question = ''Update the outdated modules?''"

text \<open>
  Lines 55 to 77, from the module list on: the engine call, the fetch report, the
  question about outdated modules and the update report.
\<close>

definition sync_modules :: "'w kiwi \<Rightarrow> args \<Rightarrow> modulename list \<Rightarrow> 'w
                             \<Rightarrow> outcome \<times> 'w \<times> event list" where
  "sync_modules k a modules w =
     (let upd = (update_modules a \<noteq> None);
          ((fetched, updatable, failed), w1) = fetch_modules k modules upd w;
          es1 = Call_fetch modules upd
                  # (if truthy (get_modules a)
                     then fetch_report modules fetched updatable failed else [])
      in if length updatable > 0 then
           (let (answer, w2) = ask k update_question [''y'', ''n''] w1;
                es2 = es1 @ [Call_ask update_question [''y'', ''n'']]
            in if answer = ''y'' then
                 (let ((fetched2, ignored, failed2), w3) = fetch_modules k updatable True w2
                  in (Returned, w3,
                      es2 @ Call_fetch updatable True # update_report fetched2 failed2))
               else (Exit 0, w2, es2))
         else
           (Returned, w1,
            es1 @ (if truthy (update_modules a) then update_report fetched failed else [])))"

text \<open>
  Line 32: \<^verbatim>\<open>modules = args.get_modules if args.get_modules else args.update_modules\<close>.
\<close>

definition requested_modules :: "args \<Rightarrow> modulename list option" where
  "requested_modules a = (if truthy (get_modules a) then get_modules a else update_modules a)"

text \<open>
  The branch is entered only when one of the two options is a non-empty list, so the
  request is never \<^verbatim>\<open>None\<close> there; the model returns at once in that case.
\<close>

definition run_sync :: "'w kiwi \<Rightarrow> args \<Rightarrow> string list \<Rightarrow> 'w \<Rightarrow> outcome \<times> 'w \<times> event list" where
  "run_sync k a argv w =
     (case requested_modules a of
        None \<Rightarrow> (Returned, w, [])
      | Some modules \<Rightarrow>
          (case collect_modules k a argv modules w of
             (Inl stop, w1, es) \<Rightarrow> (stop, w1, es)
           | (Inr modules1, w1, es) \<Rightarrow>
               (case sync_modules k a modules1 w1 of
                  (out, w2, es2) \<Rightarrow> (out, w2, es @ es2))))"

subsection \<open>Self update (lines 80 to 83)\<close>

definition run_self_update :: "'w kiwi \<Rightarrow> 'w \<Rightarrow> outcome \<times> 'w \<times> event list" where
  "run_self_update k w =
     (let (done, w1) = runtime_update k ''I have an update'' w
      in (Returned, w1,
          Call_update ''I have an update'' # (if done then [Say ''I'm up to date''] else [])))"

subsection \<open>\<^verbatim>\<open>run\<close>\<close>

definition run :: "'w kiwi \<Rightarrow> args \<Rightarrow> string list \<Rightarrow> 'w \<Rightarrow> outcome \<times> 'w \<times> event list" where
  "run k a argv w =
     (if list_modules a then run_list k w
      else if truthy (get_modules a) \<or> truthy (update_modules a) then run_sync k a argv w
      else if self_update a then run_self_update k w
      else (Returned, w, []))"

text \<open>The three parts of a result.\<close>

definition outcome_of :: "outcome \<times> 'w \<times> event list \<Rightarrow> outcome" where
  "outcome_of r = fst r"

definition world_of :: "outcome \<times> 'w \<times> event list \<Rightarrow> 'w" where
  "world_of r = fst (snd r)"

definition events_of :: "outcome \<times> 'w \<times> event list \<Rightarrow> event list" where
  "events_of r = snd (snd r)"

text \<open>The calls of the engine and of the prompt among the events, in order.\<close>

fun is_ask_call :: "event \<Rightarrow> bool" where
  "is_ask_call (Call_ask q cs) = True"
| "is_ask_call e = False"

text \<open>The events of the two listing loops: a description lookup and a printed row.\<close>

fun is_listing_event :: "event \<Rightarrow> bool" where
  "is_listing_event (Call_description m) = True"
| "is_listing_event (Print_row mk m d) = True"
| "is_listing_event e = False"

definition engine_and_prompt :: "event list \<Rightarrow> event list" where
  "engine_and_prompt es = filter (\<lambda>e. is_fetch_call e \<or> is_ask_call e) es"

subsection \<open>A small namespace for examples\<close>

text \<open>
  A namespace over the simplest world, the list of installed modules, for evaluating
  \<^verbatim>\<open>run\<close> on concrete requests. Its registry answers \<open>remote\<close> (\<open>None\<close>: it cannot be
  reached), its user answers \<open>answer\<close>, and its engine is a stand-in that installs every
  requested module the registry lists, reports an installed one as having an update
  when fetching, and fails on the rest.
\<close>

definition example_fetch :: "modulename list \<Rightarrow> modulename list \<Rightarrow> bool \<Rightarrow> modulename list
                              \<Rightarrow> (modulename list \<times> modulename list \<times> modulename list) \<times> modulename list" where
  "example_fetch remote ms upd inst =
     ((filter (\<lambda>m. m \<in> set remote \<and> (upd \<or> m \<notin> set inst)) ms,
       filter (\<lambda>m. m \<in> set remote \<and> \<not> upd \<and> m \<in> set inst) ms,
       filter (\<lambda>m. m \<notin> set remote) ms),
      inst @ filter (\<lambda>m. m \<in> set remote \<and> m \<notin> set inst) (remdups ms))"

definition example_kiwi :: "modulename list option \<Rightarrow> string \<Rightarrow> (modulename list) kiwi" where
  "example_kiwi remote answer =
     \<lparr> get_installed_module_list = (\<lambda>inst. (inst, inst)),
       get_remote_module_list = (\<lambda>inst. (remote, inst)),
       get_module_description = (\<lambda>m inst. (''about '' @ m, inst)),
       fetch_modules = (\<lambda>ms upd inst. example_fetch (case remote of None \<Rightarrow> [] | Some r \<Rightarrow> r) ms upd inst),
       ask = (\<lambda>q cs inst. (answer, inst)),
       runtime_update = (\<lambda>msg inst. (False, inst)) \<rparr>"

definition list_args :: args where
  "list_args = \<lparr> list_modules = True, get_modules = None, update_modules = None, self_update = False \<rparr>"

definition get_args :: "modulename list \<Rightarrow> args" where
  "get_args ms = \<lparr> list_modules = False, get_modules = Some ms, update_modules = None, self_update = False \<rparr>"

definition update_args :: "modulename list \<Rightarrow> args" where
  "update_args ms = \<lparr> list_modules = False, get_modules = None, update_modules = Some ms, self_update = False \<rparr>"

section \<open>Properties of the listing\<close>

subsection \<open>The two loops\<close>

lemma rows_append: "rows (xs @ ys) = rows xs @ rows ys"
  by (induction xs rule: rows.induct) simp_all

lemma mark_modules_rows:
  "distinct ms \<Longrightarrow>
   rows (snd (snd (mark_modules k ms inst w))) =
     map (\<lambda>m. (if m \<in> set inst then CHR ''x'' else CHR '' '', m)) ms"
proof (induction ms arbitrary: inst w)
  case Nil
  then show ?case by simp
next
  case (Cons m ms)
  have keep: "\<And>x. x \<in> set ms \<Longrightarrow> (x \<in> set (remove1 m inst)) = (x \<in> set inst)"
  proof -
    fix x assume "x \<in> set ms"
    with Cons.prems have "x \<noteq> m" by auto
    then show "(x \<in> set (remove1 m inst)) = (x \<in> set inst)" by (rule in_set_remove1)
  qed
  obtain d w1 where d: "get_module_description k m w = (d, w1)"
    by (cases "get_module_description k m w")
  show ?case
  proof (cases "m \<in> set inst")
    case True
    with d Cons.prems Cons.IH [of "remove1 m inst" w1] keep show ?thesis
      by (auto simp: Let_def split: prod.splits)
  next
    case False
    with d Cons.prems Cons.IH [of inst w1] show ?thesis
      by (auto simp: Let_def split: prod.splits)
  qed
qed

lemma mark_modules_left: "fst (mark_modules k ms inst w) = fold remove1 ms inst"
proof (induction ms arbitrary: inst w)
  case Nil
  then show ?case by simp
next
  case (Cons m ms)
  obtain d w1 where d: "get_module_description k m w = (d, w1)"
    by (cases "get_module_description k m w")
  have "(if m \<in> set inst then remove1 m inst else inst) = remove1 m inst"
    by (simp add: remove1_idem)
  with d Cons.IH [of "remove1 m inst" w1] show ?case
    by (auto simp: Let_def split: prod.splits)
qed

lemma fold_remove1_distinct:
  "distinct inst \<Longrightarrow> fold remove1 ms inst = filter (\<lambda>m. m \<notin> set ms) inst"
proof (induction ms arbitrary: inst)
  case Nil
  then show ?case by simp
next
  case (Cons m ms)
  have "remove1 m inst = filter (\<lambda>x. x \<noteq> m) inst"
    using Cons.prems by (simp add: distinct_remove1_removeAll removeAll_filter_not_eq) metis
  moreover have "distinct (remove1 m inst)" using Cons.prems by simp
  ultimately show ?case using Cons.IH [of "remove1 m inst"]
    by (auto intro: filter_cong)
qed

lemma mark_modules_copy_left: "fst (mark_modules k ms ms w) = []"
proof (induction ms arbitrary: w)
  case Nil
  then show ?case by simp
next
  case (Cons m ms)
  obtain d w1 where d: "get_module_description k m w = (d, w1)"
    by (cases "get_module_description k m w")
  with Cons.IH [of w1] show ?case
    by (auto simp: Let_def split: prod.splits)
qed

lemma mark_modules_copy_rows:
  "rows (snd (snd (mark_modules k ms ms w))) = map (Pair CHR ''x'') ms"
proof (induction ms arbitrary: w)
  case Nil
  then show ?case by simp
next
  case (Cons m ms)
  obtain d w1 where d: "get_module_description k m w = (d, w1)"
    by (cases "get_module_description k m w")
  with Cons.IH [of w1] show ?case
    by (auto simp: Let_def split: prod.splits)
qed

lemma list_unknown_rows: "rows (snd (list_unknown k ms w)) = map (Pair CHR ''?'') ms"
proof (induction ms arbitrary: w)
  case Nil
  then show ?case by simp
next
  case (Cons m ms)
  obtain d w1 where d: "get_module_description k m w = (d, w1)"
    by (cases "get_module_description k m w")
  with Cons.IH [of w1] show ?case
    by (auto simp: Let_def split: prod.splits)
qed

lemma mark_modules_events:
  "mark_modules k ms inst w = (left, w', es) \<Longrightarrow> list_all is_listing_event es"
proof (induction ms arbitrary: inst w left w' es)
  case Nil
  then show ?case by simp
next
  case (Cons m ms)
  then show ?case
    by (auto simp: Let_def split: prod.splits if_splits)
qed

lemma list_unknown_events:
  "list_unknown k ms w = (w', es) \<Longrightarrow> list_all is_listing_event es"
proof (induction ms arbitrary: w w' es)
  case Nil
  then show ?case by simp
next
  case (Cons m ms)
  then show ?case
    by (auto simp: Let_def split: prod.splits)
qed

subsection \<open>The listing as a whole\<close>

lemma run_list_unreachable:
  assumes "list_modules a"
      and "get_installed_module_list k w = (inst, w1)"
      and "get_remote_module_list k w1 = (None, w2)"
  shows "\<exists>w3 es. mark_modules k inst inst w2 = ([], w3, es)
           \<and> run k a argv w = (Returned, w3, Call_installed # Call_remote # Say unreachable_notice # es)"
proof -
  obtain left w3 es where m: "mark_modules k inst inst w2 = (left, w3, es)"
    by (cases "mark_modules k inst inst w2")
  have "left = []" using mark_modules_copy_left [of k inst w2] m by simp
  with m assms show ?thesis
    by (simp add: run_def run_list_def)
qed

lemma run_list_reachable:
  assumes "list_modules a"
      and "get_installed_module_list k w = (inst, w1)"
      and "get_remote_module_list k w1 = (Some remote, w2)"
  shows "\<exists>left w3 es1 w4 es2. mark_modules k remote inst w2 = (left, w3, es1)
           \<and> list_unknown k left w3 = (w4, es2)
           \<and> run k a argv w = (Returned, w4, Call_installed # Call_remote # es1 @ es2)"
proof -
  obtain left w3 es1 where m: "mark_modules k remote inst w2 = (left, w3, es1)"
    by (cases "mark_modules k remote inst w2")
  obtain w4 es2 where u: "list_unknown k left w3 = (w4, es2)"
    by (cases "list_unknown k left w3")
  from m u assms show ?thesis
    by (simp add: run_def run_list_def)
qed

text \<open>
  Claim C1, as the code has it. When the registry cannot be reached, line 18 makes
  \<^verbatim>\<open>modules\<close> a copy of the installed list, so the first loop finds every one of
  its modules in \<^verbatim>\<open>installed\<close>: the listing is exactly the installed modules, in
  their order, each marked \<^verbatim>\<open>x\<close>. The first loop empties \<^verbatim>\<open>installed\<close>, so the
  second loop prints no \<^verbatim>\<open>?\<close> row.
\<close>

theorem list_unreachable_marks_installed:
  assumes "list_modules a"
      and "get_installed_module_list k w = (inst, w1)"
      and "get_remote_module_list k w1 = (None, w2)"
  shows "rows (events_of (run k a argv w)) = map (Pair CHR ''x'') inst"
proof -
  from run_list_unreachable [OF assms, of argv] obtain w3 es
    where m: "mark_modules k inst inst w2 = ([], w3, es)"
      and r: "run k a argv w = (Returned, w3, Call_installed # Call_remote # Say unreachable_notice # es)"
    by blast
  have "rows es = map (Pair CHR ''x'') inst"
    using mark_modules_copy_rows [of k inst w2] m by simp
  with r show ?thesis by (simp add: events_of_def)
qed

theorem list_unreachable_marks_installed_witness:
  "list_modules list_args
   \<and> get_installed_module_list (example_kiwi None ''n'') [''storage'', ''journal'']
       = ([''storage'', ''journal''], [''storage'', ''journal''])
   \<and> get_remote_module_list (example_kiwi None ''n'') [''storage'', ''journal'']
       = (None, [''storage'', ''journal''])
   \<and> rows (events_of (run (example_kiwi None ''n'') list_args [''kiwi'', ''-l'']
                          [''storage'', ''journal'']))
       = [(CHR ''x'', ''storage''), (CHR ''x'', ''journal'')]"
proof -
  have h1: "list_modules list_args"
    by (simp add: list_args_def)
  have h2: "get_installed_module_list (example_kiwi None ''n'') [''storage'', ''journal'']
              = ([''storage'', ''journal''], [''storage'', ''journal''])"
    by (simp add: example_kiwi_def)
  have h3: "get_remote_module_list (example_kiwi None ''n'') [''storage'', ''journal'']
              = (None, [''storage'', ''journal''])"
    by (simp add: example_kiwi_def)
  from list_unreachable_marks_installed [OF h1 h2 h3, of "[''kiwi'', ''-l'']"] h1 h2 h3
  show ?thesis by simp
qed

text \<open>
  The scenario of the specification: the registry cannot be reached and \<^verbatim>\<open>X\<close> and
  \<^verbatim>\<open>Y\<close> are installed. Both rows carry \<^verbatim>\<open>x\<close>, and no row carries \<^verbatim>\<open>?\<close>.
\<close>

theorem list_unreachable_question_mark_counterexample:
  "rows (events_of (run (example_kiwi None ''n'') list_args [''kiwi'', ''-l''] [''X'', ''Y'']))
     = [(CHR ''x'', ''X''), (CHR ''x'', ''Y'')]
   \<and> (CHR ''?'', ''X'') \<notin> set (rows (events_of
         (run (example_kiwi None ''n'') list_args [''kiwi'', ''-l''] [''X'', ''Y''])))
   \<and> (CHR ''?'', ''Y'') \<notin> set (rows (events_of
         (run (example_kiwi None ''n'') list_args [''kiwi'', ''-l''] [''X'', ''Y''])))"
  by (simp add: run_def run_list_def example_kiwi_def list_args_def events_of_def)

text \<open>
  Claim C5. When the registry cannot be reached, the listing does not fail: \<^verbatim>\<open>run\<close>
  returns (the process ends with status 0), the only things it does beside looking up
  descriptions and printing rows are the two list queries and the notice said through
  \<^verbatim>\<open>kiwi.say\<close>, and the modules listed are the installed ones.
\<close>

theorem list_unreachable_succeeds:
  assumes "list_modules a"
      and "get_installed_module_list k w = (inst, w1)"
      and "get_remote_module_list k w1 = (None, w2)"
  shows "outcome_of (run k a argv w) = Returned
       \<and> exit_status (outcome_of (run k a argv w)) = 0
       \<and> filter (\<lambda>e. \<not> is_listing_event e) (events_of (run k a argv w))
            = [Call_installed, Call_remote, Say unreachable_notice]
       \<and> set (map snd (rows (events_of (run k a argv w)))) = set inst"
proof -
  from run_list_unreachable [OF assms, of argv] obtain w3 es
    where m: "mark_modules k inst inst w2 = ([], w3, es)"
      and r: "run k a argv w = (Returned, w3, Call_installed # Call_remote # Say unreachable_notice # es)"
    by blast
  have "rows es = map (Pair CHR ''x'') inst"
    using mark_modules_copy_rows [of k inst w2] m by simp
  then have names: "set (map snd (rows es)) = set inst"
    by (simp add: image_image comp_def)
  have "list_all is_listing_event es"
    using m by (rule mark_modules_events)
  then have quiet: "filter (\<lambda>e. \<not> is_listing_event e) es = []"
    by (simp add: list_all_iff)
  from r names quiet show ?thesis
    by (simp add: events_of_def outcome_of_def)
qed

theorem list_unreachable_succeeds_witness:
  "list_modules list_args
   \<and> get_installed_module_list (example_kiwi None ''y'') [''lofi'']
       = ([''lofi''], [''lofi''])
   \<and> get_remote_module_list (example_kiwi None ''y'') [''lofi''] = (None, [''lofi''])
   \<and> outcome_of (run (example_kiwi None ''y'') list_args [''kiwi'', ''-l''] [''lofi'']) = Returned
   \<and> filter (\<lambda>e. \<not> is_listing_event e)
         (events_of (run (example_kiwi None ''y'') list_args [''kiwi'', ''-l''] [''lofi'']))
       = [Call_installed, Call_remote, Say unreachable_notice]"
proof -
  have h1: "list_modules list_args"
    by (simp add: list_args_def)
  have h2: "get_installed_module_list (example_kiwi None ''y'') [''lofi'']
              = ([''lofi''], [''lofi''])"
    by (simp add: example_kiwi_def)
  have h3: "get_remote_module_list (example_kiwi None ''y'') [''lofi''] = (None, [''lofi''])"
    by (simp add: example_kiwi_def)
  from list_unreachable_succeeds [OF h1 h2 h3, of "[''kiwi'', ''-l'']"] h1 h2 h3
  show ?thesis by simp
qed

text \<open>
  Claim C6. The installed modules and the registry's modules are sets of names, so both
  lists are free of repetitions. When the registry answers, the listing has one row for
  every module of the union and no other row: the registry's modules come first, marked
  \<^verbatim>\<open>x\<close> when installed and blank when not, and the installed modules the registry does
  not know follow, marked \<^verbatim>\<open>?\<close>.
\<close>

theorem list_reachable_classification:
  assumes "list_modules a"
      and "get_installed_module_list k w = (inst, w1)"
      and "get_remote_module_list k w1 = (Some remote, w2)"
      and "distinct inst" and "distinct remote"
  shows "rows (events_of (run k a argv w))
           = map (\<lambda>m. (if m \<in> set inst then CHR ''x'' else CHR '' '', m)) remote
             @ map (Pair CHR ''?'') (filter (\<lambda>m. m \<notin> set remote) inst)
       \<and> distinct (map snd (rows (events_of (run k a argv w))))
       \<and> set (map snd (rows (events_of (run k a argv w)))) = set inst \<union> set remote"
proof -
  from run_list_reachable [OF assms(1-3), of argv] obtain left w3 es1 w4 es2
    where m: "mark_modules k remote inst w2 = (left, w3, es1)"
      and u: "list_unknown k left w3 = (w4, es2)"
      and r: "run k a argv w = (Returned, w4, Call_installed # Call_remote # es1 @ es2)"
    by blast
  have r1: "rows es1 = map (\<lambda>m. (if m \<in> set inst then CHR ''x'' else CHR '' '', m)) remote"
    using mark_modules_rows [OF assms(5), of k inst w2] m by simp
  have "left = fold remove1 remote inst"
    using mark_modules_left [of k remote inst w2] m by simp
  then have left: "left = filter (\<lambda>m. m \<notin> set remote) inst"
    using assms(4) by (simp add: fold_remove1_distinct)
  have r2: "rows es2 = map (Pair CHR ''?'') left"
    using list_unknown_rows [of k left w3] u by simp
  have all: "rows (events_of (run k a argv w))
               = map (\<lambda>m. (if m \<in> set inst then CHR ''x'' else CHR '' '', m)) remote
                 @ map (Pair CHR ''?'') (filter (\<lambda>m. m \<notin> set remote) inst)"
    using r r1 r2 left by (simp add: events_of_def rows_append)
  have names: "map snd (rows (events_of (run k a argv w)))
                 = remote @ filter (\<lambda>m. m \<notin> set remote) inst"
    unfolding all by (simp add: comp_def)
  have d: "distinct (remote @ filter (\<lambda>m. m \<notin> set remote) inst)"
    using assms(4,5) by auto
  have s: "set (remote @ filter (\<lambda>m. m \<notin> set remote) inst) = set inst \<union> set remote"
    by auto
  from all d s show ?thesis unfolding names by simp
qed

theorem list_reachable_classification_witness:
  "list_modules list_args
   \<and> get_installed_module_list (example_kiwi (Some [''helloworld'', ''lofi'']) ''n'')
         [''lofi'', ''journal'']
       = ([''lofi'', ''journal''], [''lofi'', ''journal''])
   \<and> get_remote_module_list (example_kiwi (Some [''helloworld'', ''lofi'']) ''n'')
         [''lofi'', ''journal'']
       = (Some [''helloworld'', ''lofi''], [''lofi'', ''journal''])
   \<and> distinct [''lofi'', ''journal''] \<and> distinct [''helloworld'', ''lofi'']
   \<and> rows (events_of (run (example_kiwi (Some [''helloworld'', ''lofi'']) ''n'') list_args
                          [''kiwi'', ''-l''] [''lofi'', ''journal'']))
       = [(CHR '' '', ''helloworld''), (CHR ''x'', ''lofi''), (CHR ''?'', ''journal'')]"
proof -
  have h1: "list_modules list_args"
    by (simp add: list_args_def)
  have h2: "get_installed_module_list (example_kiwi (Some [''helloworld'', ''lofi'']) ''n'')
              [''lofi'', ''journal'']
            = ([''lofi'', ''journal''], [''lofi'', ''journal''])"
    by (simp add: example_kiwi_def)
  have h3: "get_remote_module_list (example_kiwi (Some [''helloworld'', ''lofi'']) ''n'')
              [''lofi'', ''journal'']
            = (Some [''helloworld'', ''lofi''], [''lofi'', ''journal''])"
    by (simp add: example_kiwi_def)
  have h4: "distinct [''lofi'', ''journal'']" by simp
  have h5: "distinct [''helloworld'', ''lofi'']" by simp
  from list_reachable_classification [OF h1 h2 h3 h4 h5, of "[''kiwi'', ''-l'']"] h1 h2 h3
  show ?thesis by simp
qed

section \<open>Properties of fetching and updating\<close>

lemma requested_truthy:
  assumes "requested_modules a = Some modules" and "modules \<noteq> []"
  shows "truthy (get_modules a) \<or> truthy (update_modules a)"
  using assms by (auto simp: requested_modules_def split: if_splits)

lemma run_is_run_sync:
  assumes "\<not> list_modules a" and "requested_modules a = Some modules" and "modules \<noteq> []"
  shows "run k a argv w = run_sync k a argv w"
  using assms(1) requested_truthy [OF assms(2,3)] by (simp add: run_def)

lemma collect_modules_quiet:
  assumes "collect_modules k a argv modules w = (Inr ms, w1, es0)"
  shows "es0 = [] \<or> es0 = [Call_remote] \<or> es0 = [Call_installed]"
  using assms
  by (auto simp: collect_modules_def split: if_splits option.splits prod.splits)

lemma sync_modules_no_remote:
  "Call_remote \<notin> set (events_of (sync_modules k a ms w))"
  by (auto simp: sync_modules_def events_of_def fetch_report_def update_report_def Let_def
           split: prod.splits if_splits)

lemma run_sync_through:
  assumes "\<not> list_modules a" and "requested_modules a = Some modules" and "modules \<noteq> []"
      and "collect_modules k a argv modules w = (Inr ms, w1, es0)"
  shows "run k a argv w =
           (outcome_of (sync_modules k a ms w1), world_of (sync_modules k a ms w1),
            es0 @ events_of (sync_modules k a ms w1))"
  using assms(2,4) run_is_run_sync [OF assms(1-3), of k argv w]
  by (simp add: run_sync_def outcome_of_def world_of_def events_of_def split: prod.splits)

lemma sync_modules_prompt:
  assumes "fetch_modules k ms (update_modules a \<noteq> None) w1 = ((fetched, updatable, failed), w2)"
      and "updatable \<noteq> []"
      and "ask k update_question [''y'', ''n''] w2 = (answer, w3)"
  shows "engine_and_prompt (events_of (sync_modules k a ms w1)) =
           Call_fetch ms (update_modules a \<noteq> None) # Call_ask update_question [''y'', ''n'']
             # (if answer = ''y'' then [Call_fetch updatable True] else [])"
    and "answer \<noteq> ''y'' \<Longrightarrow> outcome_of (sync_modules k a ms w1) = Exit 0"
    and "answer \<noteq> ''y'' \<Longrightarrow> world_of (sync_modules k a ms w1) = w3"
    and "answer \<noteq> ''y'' \<Longrightarrow> filter is_fetch_call (events_of (sync_modules k a ms w1))
           = [Call_fetch ms (update_modules a \<noteq> None)]"
  using assms
  by (auto simp: sync_modules_def events_of_def outcome_of_def world_of_def engine_and_prompt_def
                 fetch_report_def update_report_def Let_def
           split: prod.splits)

text \<open>
  Claim C4. A fetch or update request that names \<^verbatim>\<open>all\<close> and another module is
  refused: the process ends with a status other than 0 (with \<^verbatim>\<open>sys.exit(1)\<close> whenever
  the command line has the word the message quotes), the usage notice is said, and up
  to that point neither the registry nor the engine has been called and the world is
  as it was.
\<close>

theorem usage_conflict_rejected:
  assumes "\<not> list_modules a" and "requested_modules a = Some modules"
      and "''all'' \<in> set modules" and "\<exists>m\<in>set modules. m \<noteq> ''all''"
  shows "exit_status (outcome_of (run k a argv w)) \<noteq> 0
       \<and> (1 < length argv \<longrightarrow> outcome_of (run k a argv w) = Exit 1)
       \<and> Say usage_notice \<in> set (events_of (run k a argv w))
       \<and> list_all (\<lambda>e. \<not> is_remote_or_engine_call e) (events_of (run k a argv w))
       \<and> world_of (run k a argv w) = w"
proof -
  from assms(3) have ne: "modules \<noteq> []" by auto
  from assms(3,4) obtain m where "m \<in> set modules" "m \<noteq> ''all''" "''all'' \<in> set modules"
    by blast
  then have "card {m, ''all''} \<le> card (set modules)"
    by (intro card_mono) auto
  also have "\<dots> \<le> length modules" by (rule card_length)
  finally have long: "1 < length modules" using \<open>m \<noteq> ''all''\<close> by simp
  have "run k a argv w = run_sync k a argv w"
    using assms(1,2) ne by (rule run_is_run_sync)
  with assms(2,3) long show ?thesis
    by (auto simp: run_sync_def collect_modules_def argv1_def outcome_of_def events_of_def
                   world_of_def split: option.splits)
qed

theorem usage_conflict_rejected_witness:
  "\<not> list_modules (get_args [''all'', ''lofi''])
   \<and> requested_modules (get_args [''all'', ''lofi'']) = Some [''all'', ''lofi'']
   \<and> ''all'' \<in> set [''all'', ''lofi'']
   \<and> (\<exists>m\<in>set [''all'', ''lofi'']. m \<noteq> ''all'')
   \<and> outcome_of (run (example_kiwi (Some [''lofi'']) ''n'') (get_args [''all'', ''lofi''])
                    [''kiwi'', ''-g'', ''all'', ''lofi''] []) = Exit 1
   \<and> world_of (run (example_kiwi (Some [''lofi'']) ''n'') (get_args [''all'', ''lofi''])
                  [''kiwi'', ''-g'', ''all'', ''lofi''] []) = []"
proof -
  have h1: "\<not> list_modules (get_args [''all'', ''lofi''])"
    by (simp add: get_args_def)
  have h2: "requested_modules (get_args [''all'', ''lofi'']) = Some [''all'', ''lofi'']"
    by (simp add: requested_modules_def get_args_def)
  have h3: "''all'' \<in> set [''all'', ''lofi'']" by simp
  have h4: "\<exists>m\<in>set [''all'', ''lofi'']. m \<noteq> ''all''" by simp
  from usage_conflict_rejected [OF h1 h2 h3 h4, of "example_kiwi (Some [''lofi'']) ''n''"
         "[''kiwi'', ''-g'', ''all'', ''lofi'']" "[]"] h1 h2 h3 h4
  show ?thesis by simp
qed

lemma sync_modules_result:
  assumes "fetch_modules k ms (update_modules a \<noteq> None) w1 = ((fetched, updatable, failed), w2)"
      and "ask k update_question [''y'', ''n''] w2 = (answer, w3)"
      and "fetch_modules k updatable True w3 = ((fetched2, ignored, failed2), w4)"
  shows "sync_modules k a ms w1 =
           (if updatable = [] then
              (Returned, w2,
               Call_fetch ms (update_modules a \<noteq> None)
                 # (if truthy (get_modules a) then fetch_report ms fetched updatable failed else [])
                 @ (if truthy (update_modules a) then update_report fetched failed else []))
            else if answer = ''y'' then
              (Returned, w4,
               Call_fetch ms (update_modules a \<noteq> None)
                 # (if truthy (get_modules a) then fetch_report ms fetched updatable failed else [])
                 @ [Call_ask update_question [''y'', ''n''], Call_fetch updatable True]
                 @ update_report fetched2 failed2)
            else
              (Exit 0, w3,
               Call_fetch ms (update_modules a \<noteq> None)
                 # (if truthy (get_modules a) then fetch_report ms fetched updatable failed else [])
                 @ [Call_ask update_question [''y'', ''n'']]))"
  using assms by (simp add: sync_modules_def Let_def)

lemma report_no_calls:
  "filter (\<lambda>e. is_fetch_call e \<or> is_ask_call e \<or> e = Call_remote)
     (fetch_report ms fetched updatable failed) = []"
  "filter (\<lambda>e. is_fetch_call e \<or> is_ask_call e \<or> e = Call_remote)
     (update_report fetched failed) = []"
  by (simp_all add: fetch_report_def update_report_def)

text \<open>
  Claim C7. An update of \<^verbatim>\<open>all\<close> asks the store for the installed modules and applies
  the engine to exactly that list, with the update flag set, in the world the store
  left. The whole run is determined by these two calls: when the engine reports no
  outdated module, the run returns in the world the engine left and reports the
  engine's own lists; the only other engine call a run can make is the update pass on
  the modules the engine reported, after the answer \<^verbatim>\<open>y\<close>. The registry's list is not
  asked for at any point.
\<close>

theorem update_all_uses_installed:
  assumes "\<not> list_modules a" and "\<not> truthy (get_modules a)"
      and "update_modules a = Some [''all'']"
      and "get_installed_module_list k w = (inst, w1)"
      and "fetch_modules k inst True w1 = ((fetched, updatable, failed), w2)"
      and "ask k update_question [''y'', ''n''] w2 = (answer, w3)"
      and "fetch_modules k updatable True w3 = ((fetched2, ignored, failed2), w4)"
  shows "run k a argv w =
           (if updatable = [] then
              (Returned, w2,
               [Call_installed, Call_fetch inst True] @ update_report fetched failed)
            else if answer = ''y'' then
              (Returned, w4,
               [Call_installed, Call_fetch inst True, Call_ask update_question [''y'', ''n''],
                Call_fetch updatable True] @ update_report fetched2 failed2)
            else
              (Exit 0, w3,
               [Call_installed, Call_fetch inst True, Call_ask update_question [''y'', ''n'']]))
       \<and> take 2 (events_of (run k a argv w)) = [Call_installed, Call_fetch inst True]
       \<and> filter is_fetch_call (events_of (run k a argv w)) =
           Call_fetch inst True
             # (if updatable \<noteq> [] \<and> answer = ''y'' then [Call_fetch updatable True] else [])
       \<and> Call_remote \<notin> set (events_of (run k a argv w))"
proof -
  have rq: "requested_modules a = Some [''all'']"
    using assms(2,3) by (simp add: requested_modules_def)
  have c: "collect_modules k a argv [''all''] w = (Inr inst, w1, [Call_installed])"
    using assms(2,4) by (simp add: collect_modules_def)
  have r: "run k a argv w =
           (outcome_of (sync_modules k a inst w1), world_of (sync_modules k a inst w1),
            [Call_installed] @ events_of (sync_modules k a inst w1))"
    using assms(1) rq _ c by (rule run_sync_through) simp
  have f: "fetch_modules k inst (update_modules a \<noteq> None) w1 = ((fetched, updatable, failed), w2)"
    using assms(3,5) by simp
  note s = sync_modules_result [OF f assms(6,7)]
  have whole: "run k a argv w =
           (if updatable = [] then
              (Returned, w2,
               [Call_installed, Call_fetch inst True] @ update_report fetched failed)
            else if answer = ''y'' then
              (Returned, w4,
               [Call_installed, Call_fetch inst True, Call_ask update_question [''y'', ''n''],
                Call_fetch updatable True] @ update_report fetched2 failed2)
            else
              (Exit 0, w3,
               [Call_installed, Call_fetch inst True, Call_ask update_question [''y'', ''n'']]))"
    unfolding r s using assms(2,3)
    by (simp add: outcome_of_def world_of_def events_of_def)
  have calls: "filter is_fetch_call (update_report fetched failed) = []"
    "filter is_fetch_call (update_report fetched2 failed2) = []"
    by (simp_all add: update_report_def)
  have quiet: "Call_remote \<notin> set (update_report fetched failed)"
    "Call_remote \<notin> set (update_report fetched2 failed2)"
    by (simp_all add: update_report_def)
  show ?thesis
    unfolding whole using calls quiet by (simp add: events_of_def)
qed

theorem update_all_uses_installed_witness:
  "\<not> list_modules (update_args [''all''])
   \<and> \<not> truthy (get_modules (update_args [''all'']))
   \<and> update_modules (update_args [''all'']) = Some [''all'']
   \<and> get_installed_module_list (example_kiwi (Some [''lofi'']) ''n'') [''lofi'', ''journal'']
       = ([''lofi'', ''journal''], [''lofi'', ''journal''])
   \<and> fetch_modules (example_kiwi (Some [''lofi'']) ''n'') [''lofi'', ''journal''] True [''lofi'', ''journal'']
       = (([''lofi''], [], [''journal'']), [''lofi'', ''journal''])
   \<and> ask (example_kiwi (Some [''lofi'']) ''n'') update_question [''y'', ''n''] [''lofi'', ''journal'']
       = (''n'', [''lofi'', ''journal''])
   \<and> fetch_modules (example_kiwi (Some [''lofi'']) ''n'') [] True [''lofi'', ''journal'']
       = (([], [], []), [''lofi'', ''journal''])
   \<and> run (example_kiwi (Some [''lofi'']) ''n'') (update_args [''all'']) [''kiwi'', ''-u'', ''all''] [''lofi'', ''journal'']
       = (Returned, [''lofi'', ''journal''],
          [Call_installed, Call_fetch [''lofi'', ''journal''] True]
            @ update_report [''lofi''] [''journal''])"
proof -
  have h1: "\<not> list_modules (update_args [''all''])"
    by (simp add: update_args_def)
  have h2: "\<not> truthy (get_modules (update_args [''all'']))"
    by (simp add: update_args_def)
  have h3: "update_modules (update_args [''all'']) = Some [''all'']"
    by (simp add: update_args_def)
  have h4: "get_installed_module_list (example_kiwi (Some [''lofi'']) ''n'') [''lofi'', ''journal'']
              = ([''lofi'', ''journal''], [''lofi'', ''journal''])"
    by (simp add: example_kiwi_def)
  have h5: "fetch_modules (example_kiwi (Some [''lofi'']) ''n'') [''lofi'', ''journal''] True [''lofi'', ''journal'']
              = (([''lofi''], [], [''journal'']), [''lofi'', ''journal''])"
    by (simp add: example_kiwi_def example_fetch_def)
  have h6: "ask (example_kiwi (Some [''lofi'']) ''n'') update_question [''y'', ''n''] [''lofi'', ''journal'']
              = (''n'', [''lofi'', ''journal''])"
    by (simp add: example_kiwi_def)
  have h7: "fetch_modules (example_kiwi (Some [''lofi'']) ''n'') [] True [''lofi'', ''journal'']
              = (([], [], []), [''lofi'', ''journal''])"
    by (simp add: example_kiwi_def example_fetch_def)
  from update_all_uses_installed [OF h1 h2 h3 h4 h5 h6 h7, of "[''kiwi'', ''-u'', ''all'']"]
       h1 h2 h3 h4 h5 h6 h7
  show ?thesis by simp
qed

text \<open>
  Claim C8. When the engine reports modules with an available update, \<^verbatim>\<open>run\<close> puts the
  question to the user in the world the engine left, and the update pass depends on the
  answer alone. On \<^verbatim>\<open>y\<close> the engine is applied to the reported modules with the update
  flag set, in the world the question left, and the run returns in the world that call
  left, reporting that call's lists. On any other answer the engine is not applied
  again and the run ends in the world the question left. In both cases the calls of the
  engine and of the prompt come in this order: the requested fetch, the question, and
  then the update pass if and only if the answer is \<^verbatim>\<open>y\<close>.
\<close>

theorem update_pass_needs_yes:
  assumes "\<not> list_modules a" and "requested_modules a = Some modules" and "modules \<noteq> []"
      and "collect_modules k a argv modules w = (Inr ms, w1, es0)"
      and "fetch_modules k ms (update_modules a \<noteq> None) w1 = ((fetched, updatable, failed), w2)"
      and "updatable \<noteq> []"
      and "ask k update_question [''y'', ''n''] w2 = (answer, w3)"
      and "fetch_modules k updatable True w3 = ((fetched2, ignored, failed2), w4)"
  shows "run k a argv w =
           (if answer = ''y'' then
              (Returned, w4,
               es0 @ Call_fetch ms (update_modules a \<noteq> None)
                 # (if truthy (get_modules a) then fetch_report ms fetched updatable failed else [])
                 @ [Call_ask update_question [''y'', ''n''], Call_fetch updatable True]
                 @ update_report fetched2 failed2)
            else
              (Exit 0, w3,
               es0 @ Call_fetch ms (update_modules a \<noteq> None)
                 # (if truthy (get_modules a) then fetch_report ms fetched updatable failed else [])
                 @ [Call_ask update_question [''y'', ''n'']]))
       \<and> engine_and_prompt (events_of (run k a argv w)) =
           Call_fetch ms (update_modules a \<noteq> None) # Call_ask update_question [''y'', ''n'']
             # (if answer = ''y'' then [Call_fetch updatable True] else [])"
proof -
  note r = run_sync_through [OF assms(1-4)]
  note s = sync_modules_result [OF assms(5,7,8)]
  have whole: "run k a argv w =
           (if answer = ''y'' then
              (Returned, w4,
               es0 @ Call_fetch ms (update_modules a \<noteq> None)
                 # (if truthy (get_modules a) then fetch_report ms fetched updatable failed else [])
                 @ [Call_ask update_question [''y'', ''n''], Call_fetch updatable True]
                 @ update_report fetched2 failed2)
            else
              (Exit 0, w3,
               es0 @ Call_fetch ms (update_modules a \<noteq> None)
                 # (if truthy (get_modules a) then fetch_report ms fetched updatable failed else [])
                 @ [Call_ask update_question [''y'', ''n'']]))"
    unfolding r s using assms(6)
    by (simp add: outcome_of_def world_of_def events_of_def)
  have e: "events_of (run k a argv w) = es0 @ events_of (sync_modules k a ms w1)"
    using r by (simp add: events_of_def)
  have q: "engine_and_prompt es0 = []"
    using collect_modules_quiet [OF assms(4)] by (auto simp: engine_and_prompt_def)
  have "engine_and_prompt (events_of (run k a argv w))
          = engine_and_prompt es0 @ engine_and_prompt (events_of (sync_modules k a ms w1))"
    unfolding e by (simp add: engine_and_prompt_def)
  with q sync_modules_prompt(1) [OF assms(5-7)] whole show ?thesis by simp
qed

theorem update_pass_needs_yes_witness:
  "\<not> list_modules (get_args [''lofi'', ''journal''])
   \<and> requested_modules (get_args [''lofi'', ''journal'']) = Some [''lofi'', ''journal'']
   \<and> [''lofi'', ''journal''] \<noteq> []
   \<and> collect_modules (example_kiwi (Some [''lofi'', ''journal'']) ''y'') (get_args [''lofi'', ''journal''])
         [''kiwi'', ''-g'', ''lofi'', ''journal''] [''lofi'', ''journal''] [''lofi'']
       = (Inr [''lofi'', ''journal''], [''lofi''], [])
   \<and> fetch_modules (example_kiwi (Some [''lofi'', ''journal'']) ''y'') [''lofi'', ''journal'']
         (update_modules (get_args [''lofi'', ''journal'']) \<noteq> None) [''lofi'']
       = (([''journal''], [''lofi''], []), [''lofi'', ''journal''])
   \<and> [''lofi''] \<noteq> []
   \<and> ask (example_kiwi (Some [''lofi'', ''journal'']) ''y'') update_question [''y'', ''n''] [''lofi'', ''journal'']
       = (''y'', [''lofi'', ''journal''])
   \<and> fetch_modules (example_kiwi (Some [''lofi'', ''journal'']) ''y'') [''lofi''] True [''lofi'', ''journal'']
       = (([''lofi''], [], []), [''lofi'', ''journal''])
   \<and> run (example_kiwi (Some [''lofi'', ''journal'']) ''y'') (get_args [''lofi'', ''journal''])
         [''kiwi'', ''-g'', ''lofi'', ''journal''] [''lofi'']
       = (Returned, [''lofi'', ''journal''],
          Call_fetch [''lofi'', ''journal''] False
            # fetch_report [''lofi'', ''journal''] [''journal''] [''lofi''] []
            @ [Call_ask update_question [''y'', ''n''], Call_fetch [''lofi''] True]
            @ update_report [''lofi''] [])
   \<and> engine_and_prompt (events_of (run (example_kiwi (Some [''lofi'', ''journal'']) ''y'') (get_args [''lofi'', ''journal''])
         [''kiwi'', ''-g'', ''lofi'', ''journal''] [''lofi'']))
       = [Call_fetch [''lofi'', ''journal''] False, Call_ask update_question [''y'', ''n''],
          Call_fetch [''lofi''] True]"
proof -
  have h1: "\<not> list_modules (get_args [''lofi'', ''journal''])"
    by (simp add: get_args_def)
  have h2: "requested_modules (get_args [''lofi'', ''journal'']) = Some [''lofi'', ''journal'']"
    by (simp add: requested_modules_def get_args_def)
  have h3: "[''lofi'', ''journal''] \<noteq> []" by simp
  have h4: "collect_modules (example_kiwi (Some [''lofi'', ''journal'']) ''y'') (get_args [''lofi'', ''journal''])
              [''kiwi'', ''-g'', ''lofi'', ''journal''] [''lofi'', ''journal''] [''lofi'']
            = (Inr [''lofi'', ''journal''], [''lofi''], [])"
    by (simp add: collect_modules_def)
  have h5: "fetch_modules (example_kiwi (Some [''lofi'', ''journal'']) ''y'') [''lofi'', ''journal'']
              (update_modules (get_args [''lofi'', ''journal'']) \<noteq> None) [''lofi'']
            = (([''journal''], [''lofi''], []), [''lofi'', ''journal''])"
    by (simp add: example_kiwi_def example_fetch_def get_args_def)
  have h6: "[''lofi''] \<noteq> []" by simp
  have h7: "ask (example_kiwi (Some [''lofi'', ''journal'']) ''y'') update_question [''y'', ''n''] [''lofi'', ''journal'']
              = (''y'', [''lofi'', ''journal''])"
    by (simp add: example_kiwi_def)
  have h8: "fetch_modules (example_kiwi (Some [''lofi'', ''journal'']) ''y'') [''lofi''] True [''lofi'', ''journal'']
              = (([''lofi''], [], []), [''lofi'', ''journal''])"
    by (simp add: example_kiwi_def example_fetch_def)
  note t = update_pass_needs_yes [OF h1 h2 h3 h4 h5 h6 h7 h8]
  have a: "run (example_kiwi (Some [''lofi'', ''journal'']) ''y'') (get_args [''lofi'', ''journal''])
             [''kiwi'', ''-g'', ''lofi'', ''journal''] [''lofi'']
           = (Returned, [''lofi'', ''journal''],
              Call_fetch [''lofi'', ''journal''] False
                # fetch_report [''lofi'', ''journal''] [''journal''] [''lofi''] []
                @ [Call_ask update_question [''y'', ''n''], Call_fetch [''lofi''] True]
                @ update_report [''lofi''] [])"
    using t [THEN conjunct1] by (simp add: get_args_def)
  have b: "engine_and_prompt (events_of (run (example_kiwi (Some [''lofi'', ''journal'']) ''y'')
             (get_args [''lofi'', ''journal''])
             [''kiwi'', ''-g'', ''lofi'', ''journal''] [''lofi'']))
           = [Call_fetch [''lofi'', ''journal''] False, Call_ask update_question [''y'', ''n''],
              Call_fetch [''lofi''] True]"
    using t [THEN conjunct2] by (simp add: get_args_def)
  from a b h1 h2 h3 h4 h5 h6 h7 h8 show ?thesis by blast
qed

text \<open>
  Claim C10. When the answer to the question about outdated modules is not \<^verbatim>\<open>y\<close>
  (so in particular when it is \<^verbatim>\<open>n\<close>), the process ends through \<^verbatim>\<open>sys.exit(0)\<close>,
  the engine has been called once only, for the request itself, and the world is left
  as the question left it: declining installs and overwrites nothing.
\<close>

theorem declined_update_exits:
  assumes "\<not> list_modules a" and "requested_modules a = Some modules" and "modules \<noteq> []"
      and "collect_modules k a argv modules w = (Inr ms, w1, es0)"
      and "fetch_modules k ms (update_modules a \<noteq> None) w1 = ((fetched, updatable, failed), w2)"
      and "updatable \<noteq> []"
      and "ask k update_question [''y'', ''n''] w2 = (answer, w3)"
      and "answer \<noteq> ''y''"
  shows "outcome_of (run k a argv w) = Exit 0
       \<and> exit_status (outcome_of (run k a argv w)) = 0
       \<and> filter is_fetch_call (events_of (run k a argv w)) = [Call_fetch ms (update_modules a \<noteq> None)]
       \<and> world_of (run k a argv w) = w3"
proof -
  note r = run_sync_through [OF assms(1-4)]
  have q: "filter is_fetch_call es0 = []"
    using collect_modules_quiet [OF assms(4)] by auto
  from r q sync_modules_prompt(2,3,4) [OF assms(5-7) assms(8)] show ?thesis
    by (simp add: outcome_of_def world_of_def events_of_def)
qed

theorem declined_update_exits_witness:
  "(\<not> list_modules (get_args [''lofi'', ''journal''])) \<and>
   (requested_modules (get_args [''lofi'', ''journal'']) = Some [''lofi'', ''journal'']) \<and>
   ([''lofi'', ''journal''] \<noteq> []) \<and>
   (collect_modules (example_kiwi (Some [''lofi'', ''journal'']) ''n'') (get_args [''lofi'', ''journal'']) [''kiwi'', ''-g'', ''lofi'', ''journal'']
       [''lofi'', ''journal''] [''lofi'']
     = (Inr [''lofi'', ''journal''], [''lofi''], [])) \<and>
   (fetch_modules (example_kiwi (Some [''lofi'', ''journal'']) ''n'') [''lofi'', ''journal'']
       (update_modules (get_args [''lofi'', ''journal'']) \<noteq> None) [''lofi'']
     = (([''journal''], [''lofi''], []), [''lofi'', ''journal''])) \<and>
   ([''lofi''] \<noteq> []) \<and>
   (ask (example_kiwi (Some [''lofi'', ''journal'']) ''n'') update_question [''y'', ''n''] [''lofi'', ''journal'']
     = (''n'', [''lofi'', ''journal''])) \<and>
   (''n'' \<noteq> ''y'') \<and>
   outcome_of (run (example_kiwi (Some [''lofi'', ''journal'']) ''n'') (get_args [''lofi'', ''journal''])
        [''kiwi'', ''-g'', ''lofi'', ''journal''] [''lofi'']) = Exit 0 \<and>
   filter is_fetch_call (events_of (run (example_kiwi (Some [''lofi'', ''journal'']) ''n'') (get_args [''lofi'', ''journal''])
        [''kiwi'', ''-g'', ''lofi'', ''journal''] [''lofi'']))
     = [Call_fetch [''lofi'', ''journal''] False] \<and>
   world_of (run (example_kiwi (Some [''lofi'', ''journal'']) ''n'') (get_args [''lofi'', ''journal''])
        [''kiwi'', ''-g'', ''lofi'', ''journal''] [''lofi'']) = [''lofi'', ''journal'']"
proof -
  have h1: "\<not> list_modules (get_args [''lofi'', ''journal''])"
    by (simp add: get_args_def)
  have h2: "requested_modules (get_args [''lofi'', ''journal'']) = Some [''lofi'', ''journal'']"
    by (simp add: requested_modules_def get_args_def)
  have h3: "[''lofi'', ''journal''] \<noteq> []"
    by simp
  have h4: "collect_modules (example_kiwi (Some [''lofi'', ''journal'']) ''n'') (get_args [''lofi'', ''journal'']) [''kiwi'', ''-g'', ''lofi'', ''journal'']
          [''lofi'', ''journal''] [''lofi'']
        = (Inr [''lofi'', ''journal''], [''lofi''], [])"
    by (simp add: collect_modules_def)
  have h5: "fetch_modules (example_kiwi (Some [''lofi'', ''journal'']) ''n'') [''lofi'', ''journal'']
          (update_modules (get_args [''lofi'', ''journal'']) \<noteq> None) [''lofi'']
        = (([''journal''], [''lofi''], []), [''lofi'', ''journal''])"
    by (simp add: example_kiwi_def example_fetch_def get_args_def)
  have h6: "[''lofi''] \<noteq> []"
    by simp
  have h7: "ask (example_kiwi (Some [''lofi'', ''journal'']) ''n'') update_question [''y'', ''n''] [''lofi'', ''journal'']
        = (''n'', [''lofi'', ''journal''])"
    by (simp add: example_kiwi_def)
  have h8: "''n'' \<noteq> ''y''"
    by simp
  from declined_update_exits [OF h1 h2 h3 h4 h5 h6 h7 h8] h1 h2 h4 h5 h7
  show ?thesis by (simp add: get_args_def)
qed

end
